theory Spec2Isabelle
  imports Complex_Main
begin

section \<open>Data model\<close>

text \<open>
  The tracker backend keeps three collections: users, families and location samples.
  Mongo ObjectIds are only ever compared through \<^verbatim>\<open>toString()\<close>, so an id is a natural
  number here. JavaScript numbers that have passed validation are real numbers; a number
  that has not been validated yet is a \<open>jsnum\<close>, which also has the non-numbers a request
  can carry. Times are milliseconds since the epoch.
\<close>

type_synonym objectId = nat

datatype jsnum = Undefined | Number real | NaN | PosInfinity | NegInfinity

text \<open>
  A date string of a request: absent, or a string together with what
  \<^verbatim>\<open>isISO8601\<close> of express-validator says about it and what \<^verbatim>\<open>new Date(s)\<close> makes of it
  (\<open>None\<close> is the Invalid Date).
\<close>

datatype rawDate = DateAbsent | DateString bool "int option"

datatype rawLimit = LimitAbsent | LimitInt int | LimitInvalid

datatype role = Admin | Member

datatype placeType = Home | Work | School | Other

record coordinates =
  latitude :: real
  longitude :: real

record placeNotifications =
  arrivalAlerts :: bool
  departureAlerts :: bool
  membersToNotify :: "objectId list"

record place =
  place_id :: objectId
  place_name :: string
  place_coordinates :: coordinates
  radius :: real
  place_type :: placeType
  notifications :: placeNotifications

record familyMember =
  member_userId :: objectId
  member_role :: role

record family =
  family_id :: objectId
  members :: "familyMember list"
  places :: "place list"
  family_isActive :: bool

record familyRef =
  familyId :: objectId
  ref_role :: role

record LocationSettings =
  shareLocation :: bool

record PrivacySettings =
  shareLocationHistory :: bool
  allowEmergencyAlerts :: bool
  visibleToFamily :: bool

record user =
  user_id :: objectId
  families :: "familyRef list"
  locationSettings :: LocationSettings
  privacySettings :: PrivacySettings

record placeRef =
  placeId :: objectId
  ref_name :: string
  ref_type :: placeType

text \<open>A stored Location document (models/Location.js), after casting and validation.\<close>

record location =
  loc_userId :: objectId
  loc_coordinates :: coordinates
  accuracy :: jsnum
  altitude :: jsnum
  altitudeAccuracy :: jsnum
  heading :: jsnum
  speed :: jsnum
  loc_timestamp :: int
  battery_level :: jsnum
  locationMethod :: string
  loc_place :: "placeRef option"
  familyIds :: "objectId list"
  loc_isActive :: bool

text \<open>The body of a location update, as the client sends it.\<close>

record rawCoordinates =
  raw_latitude :: jsnum
  raw_longitude :: jsnum

record locationData =
  ld_coordinates :: "rawCoordinates option"
  ld_accuracy :: jsnum
  ld_altitude :: jsnum
  ld_altitudeAccuracy :: jsnum
  ld_heading :: jsnum
  ld_speed :: jsnum
  ld_timestamp :: rawDate
  ld_battery_level :: jsnum
  ld_locationMethod :: "string option"

record db =
  users :: "user list"
  all_families :: "family list"
  locations :: "location list"

text \<open>The HTTP error answers: 400, 403, 404 and 500, each with its message.\<close>

datatype error = BadRequest string | Forbidden string | NotFound string | ServerError string

section \<open>Geo math (models/Location.js)\<close>

text \<open>\<^verbatim>\<open>Math.atan2(y, x)\<close> on real numbers.\<close>

definition atan2 :: "real \<Rightarrow> real \<Rightarrow> real" where
  "atan2 y x =
     (if 0 < x then arctan (y / x)
      else if x < 0 then (if 0 \<le> y then arctan (y / x) + pi else arctan (y / x) - pi)
      else if 0 < y then pi / 2
      else if y < 0 then - (pi / 2)
      else 0)"

text \<open>The quantity \<^verbatim>\<open>a\<close> of \<^verbatim>\<open>distanceTo\<close>: the haversine of the central angle.\<close>

definition haversine_a :: "coordinates \<Rightarrow> coordinates \<Rightarrow> real" where
  "haversine_a this otherLocation =
     (let \<phi>1 = latitude this * pi / 180;
          \<phi>2 = latitude otherLocation * pi / 180;
          \<Delta>\<phi> = (latitude otherLocation - latitude this) * pi / 180;
          \<Delta>\<mu> = (longitude otherLocation - longitude this) * pi / 180
      in sin (\<Delta>\<phi> / 2) * sin (\<Delta>\<phi> / 2) +
         cos \<phi>1 * cos \<phi>2 * sin (\<Delta>\<mu> / 2) * sin (\<Delta>\<mu> / 2))"

definition distanceTo :: "coordinates \<Rightarrow> coordinates \<Rightarrow> real" where
  "distanceTo this otherLocation =
     (let R = 6371000;
          a = haversine_a this otherLocation;
          c = 2 * atan2 (sqrt a) (sqrt (1 - a))
      in R * c)"

definition isWithinPlace :: "location \<Rightarrow> place \<Rightarrow> bool" where
  "isWithinPlace this place =
     (let distance = distanceTo (loc_coordinates this)
            \<lparr>latitude = latitude (place_coordinates place),
             longitude = longitude (place_coordinates place)\<rparr>
      in distance \<le> radius place)"



section \<open>Membership model (models/Family.js, routes/family.js, middleware/auth.js)\<close>

text \<open>
  The member routes change the Family document and then the \<^verbatim>\<open>families\<close> list of the
  User document. The functions below follow the Family document: a route takes the family
  that its middleware has loaded and returns the family it saves, or the error it answers.
\<close>

definition isUserMember :: "family \<Rightarrow> objectId \<Rightarrow> bool" where
  "isUserMember this userId = list_ex (\<lambda>member. member_userId member = userId) (members this)"

definition isUserAdmin :: "family \<Rightarrow> objectId \<Rightarrow> bool" where
  "isUserAdmin this userId =
     (case find (\<lambda>member. member_userId member = userId) (members this) of
        None \<Rightarrow> False
      | Some member \<Rightarrow> member_role member = Admin)"

definition removeMember :: "family \<Rightarrow> objectId \<Rightarrow> family" where
  "removeMember this userId =
     this\<lparr>members := filter (\<lambda>member. member_userId member \<noteq> userId) (members this)\<rparr>"

text \<open>\<^verbatim>\<open>find\<close> returns the first member with the id, and its role is assigned in place.\<close>

fun setRoleOfFirst :: "objectId \<Rightarrow> role \<Rightarrow> familyMember list \<Rightarrow> familyMember list option" where
  "setRoleOfFirst userId newRole [] = None"
| "setRoleOfFirst userId newRole (member # rest) =
     (if member_userId member = userId then Some (member\<lparr>member_role := newRole\<rparr> # rest)
      else map_option (\<lambda>r. member # r) (setRoleOfFirst userId newRole rest))"

definition updateMemberRole :: "family \<Rightarrow> objectId \<Rightarrow> role \<Rightarrow> error + family" where
  "updateMemberRole this userId newRole =
     (case setRoleOfFirst userId newRole (members this) of
        None \<Rightarrow> Inl (ServerError ''Server error'')
      | Some ms \<Rightarrow> Inr (this\<lparr>members := ms\<rparr>))"

definition adminCount :: "family \<Rightarrow> nat" where
  "adminCount this = length (filter (\<lambda>member. member_role member = Admin) (members this))"

text \<open>PUT /:familyId/members/:memberId/role, behind \<^verbatim>\<open>requireFamilyAdmin\<close>.\<close>

definition putMemberRole :: "family \<Rightarrow> objectId \<Rightarrow> objectId \<Rightarrow> role \<Rightarrow> error + family" where
  "putMemberRole family requesterId memberId newRole =
     (if \<not> isUserAdmin family requesterId then Inl (Forbidden ''Admin access required'')
      else if \<not> isUserMember family memberId then Inl (NotFound ''Member not found in family'')
      else updateMemberRole family memberId newRole)"

text \<open>DELETE /:familyId/members/:memberId, behind \<^verbatim>\<open>requireFamilyAdmin\<close>.\<close>

definition deleteMember :: "family \<Rightarrow> objectId \<Rightarrow> objectId \<Rightarrow> error + family" where
  "deleteMember family requesterId memberId =
     (if \<not> isUserAdmin family requesterId then Inl (Forbidden ''Admin access required'')
      else if \<not> isUserMember family memberId then Inl (NotFound ''Member not found in family'')
      else (case find (\<lambda>member. member_userId member = memberId) (members family) of
        None \<Rightarrow> Inl (ServerError ''Server error'')
      | Some memberToRemove \<Rightarrow>
          (if member_role memberToRemove = Admin \<and> adminCount family = 1
           then Inl (BadRequest ''Cannot remove the only admin from the family'')
           else Inr (removeMember family memberId))))"

text \<open>POST /:familyId/leave, behind \<^verbatim>\<open>requireFamilyMember\<close>.\<close>

definition leaveFamily :: "family \<Rightarrow> objectId \<Rightarrow> error + family" where
  "leaveFamily family userId =
     (if \<not> isUserMember family userId then Inl (Forbidden ''Family membership required'')
      else (case find (\<lambda>member. member_userId member = userId) (members family) of
        None \<Rightarrow> Inl (ServerError ''Server error'')
      | Some userMember \<Rightarrow>
          (if member_role userMember = Admin \<and> adminCount family = 1 \<and>
              length (members family) > 1
           then Inl (BadRequest ''Cannot leave family: You are the only admin. Please promote another member to admin first.'')
           else (let left = removeMember family userId
                 in Inr (if length (members left) = 0 then left\<lparr>family_isActive := False\<rparr>
                         else left)))))"

text \<open>The admin floor of a family: members, if there are any, include an admin.\<close>

definition hasAdmin :: "family \<Rightarrow> bool" where
  "hasAdmin f = (if members f = [] then True else list_ex (\<lambda>m. member_role m = Admin) (members f))"

section \<open>Permission evaluator (utils: hasDataAccessPermission)\<close>

definition sharedFamily :: "user \<Rightarrow> user \<Rightarrow> bool" where
  "sharedFamily requester target =
     list_ex (\<lambda>requesterFamily.
        list_ex (\<lambda>targetFamily. familyId targetFamily = familyId requesterFamily) (families target))
       (families requester)"

definition hasDataAccessPermission :: "user \<Rightarrow> user \<Rightarrow> string \<Rightarrow> bool" where
  "hasDataAccessPermission requester target dataType =
     (if user_id requester = user_id target then True
      else if \<not> sharedFamily requester target then False
      else if dataType = ''location''
        then shareLocation (locationSettings target) \<and> visibleToFamily (privacySettings target)
      else if dataType = ''locationHistory''
        then shareLocationHistory (privacySettings target) \<and> visibleToFamily (privacySettings target)
      else if dataType = ''profile''
        then visibleToFamily (privacySettings target)
      else False)"

section \<open>Queries on the store (models/Location.js statics)\<close>

definition findUserById :: "db \<Rightarrow> objectId \<Rightarrow> user option" where
  "findUserById d userId = find (\<lambda>u. user_id u = userId) (users d)"




definition getHistoryForUser :: "db \<Rightarrow> objectId \<Rightarrow> int \<Rightarrow> int \<Rightarrow> int \<Rightarrow> location list" where
  "getHistoryForUser d userId startDate endDate limit =
     take (nat limit)
       (rev (sort_key loc_timestamp
          (filter (\<lambda>l. loc_userId l = userId \<and> loc_isActive l \<and>
                       startDate \<le> loc_timestamp l \<and> loc_timestamp l \<le> endDate)
             (locations d))))"

section \<open>Request validation (express-validator chains of the routes)\<close>

text \<open>\<^verbatim>\<open>.optional().isISO8601()\<close>: an absent field passes, a string must be ISO 8601.\<close>

definition optionalISO8601 :: "rawDate \<Rightarrow> bool" where
  "optionalISO8601 v = (case v of DateAbsent \<Rightarrow> True | DateString matches parsed \<Rightarrow> matches)"

text \<open>\<^verbatim>\<open>.optional().isInt({ min: 1, max: 1000 })\<close>\<close>

definition optionalLimit :: "rawLimit \<Rightarrow> bool" where
  "optionalLimit v =
     (case v of LimitAbsent \<Rightarrow> True | LimitInt n \<Rightarrow> 1 \<le> n \<and> n \<le> 1000 | LimitInvalid \<Rightarrow> False)"

text \<open>
  \<^verbatim>\<open>isFloat({ min, max })\<close>: the field is a finite number within the bounds given. An absent
  field, NaN and the infinities are not floats.
\<close>

definition isFloat :: "real option \<Rightarrow> real option \<Rightarrow> jsnum \<Rightarrow> bool" where
  "isFloat lo hi v =
     (case v of
        Number x \<Rightarrow>
          (case lo of None \<Rightarrow> True | Some l \<Rightarrow> l \<le> x) \<and>
          (case hi of None \<Rightarrow> True | Some h \<Rightarrow> x \<le> h)
      | _ \<Rightarrow> False)"

definition optionalFloat :: "real option \<Rightarrow> real option \<Rightarrow> jsnum \<Rightarrow> bool" where
  "optionalFloat lo hi v = (if v = Undefined then True else isFloat lo hi v)"

definition bodyLatitude :: "locationData \<Rightarrow> jsnum" where
  "bodyLatitude body = (case ld_coordinates body of None \<Rightarrow> Undefined | Some c \<Rightarrow> raw_latitude c)"

definition bodyLongitude :: "locationData \<Rightarrow> jsnum" where
  "bodyLongitude body = (case ld_coordinates body of None \<Rightarrow> Undefined | Some c \<Rightarrow> raw_longitude c)"

text \<open>The four validators of POST /update; True when \<^verbatim>\<open>errors.isEmpty()\<close>.\<close>

definition updateValidators :: "locationData \<Rightarrow> bool" where
  "updateValidators body \<longleftrightarrow>
     isFloat (Some (- 90)) (Some 90) (bodyLatitude body) \<and>
     isFloat (Some (- 180)) (Some 180) (bodyLongitude body) \<and>
     optionalFloat (Some 0) None (ld_accuracy body) \<and>
     optionalISO8601 (ld_timestamp body)"

record historyQuery =
  q_startDate :: rawDate
  q_endDate :: rawDate
  q_limit :: rawLimit

definition historyValidators :: "historyQuery \<Rightarrow> bool" where
  "historyValidators q \<longleftrightarrow>
     optionalISO8601 (q_startDate q) \<and> optionalISO8601 (q_endDate q) \<and> optionalLimit (q_limit q)"

section \<open>Location history of another user (routes/location.js)\<close>

record historyResponse =
  hr_userId :: objectId
  hr_locations :: "location list"
  hr_count :: nat
  hr_start :: int
  hr_end :: int

text \<open>\<^verbatim>\<open>v ? new Date(v) : dflt\<close>; \<open>None\<close> is the Invalid Date, which the query refuses.\<close>

definition dateOrDefault :: "rawDate \<Rightarrow> int \<Rightarrow> int option" where
  "dateOrDefault v dflt = (case v of DateAbsent \<Rightarrow> Some dflt | DateString matches parsed \<Rightarrow> parsed)"

definition limitOrDefault :: "rawLimit \<Rightarrow> int" where
  "limitOrDefault v = (case v of LimitInt n \<Rightarrow> n | _ \<Rightarrow> 100)"

text \<open>
  GET /user/:userId/history. A requester that is missing from the store makes
  \<^verbatim>\<open>requesterUser.families\<close> throw, which the handler answers with 500.
\<close>

definition getUserHistory ::
  "int \<Rightarrow> db \<Rightarrow> objectId \<Rightarrow> objectId \<Rightarrow> historyQuery \<Rightarrow> error + historyResponse" where
  "getUserHistory now d requesterId targetUserId q =
     (if \<not> historyValidators q then Inl (BadRequest ''Validation failed'')
      else case findUserById d targetUserId of
        None \<Rightarrow> Inl (NotFound ''User not found'')
      | Some targetUser \<Rightarrow>
          (if \<not> shareLocationHistory (privacySettings targetUser)
           then Inl (Forbidden ''User has disabled location history sharing'')
           else (case findUserById d requesterId of
             None \<Rightarrow> Inl (ServerError ''Server error'')
           | Some requesterUser \<Rightarrow>
               (if \<not> sharedFamily requesterUser targetUser
                then Inl (Forbidden ''Not authorized to view this user's location history'')
                else (case dateOrDefault (q_startDate q) (now - 7 * 24 * 60 * 60 * 1000) of
                  None \<Rightarrow> Inl (ServerError ''Server error'')
                | Some start \<Rightarrow>
                    (case dateOrDefault (q_endDate q) now of
                       None \<Rightarrow> Inl (ServerError ''Server error'')
                     | Some end' \<Rightarrow>
                         (let locations = getHistoryForUser d targetUserId start end'
                                            (limitOrDefault (q_limit q))
                          in Inr \<lparr>hr_userId = targetUserId, hr_locations = locations,
                                  hr_count = length locations, hr_start = start,
                                  hr_end = end'\<rparr>)))))))"

section \<open>Current locations of a family (routes/family.js, socket handler)\<close>



section \<open>Creating and saving a Location document (models/Location.js)\<close>

text \<open>JavaScript truthiness of a number field, and \<^verbatim>\<open>v || d\<close>.\<close>

definition truthy :: "jsnum \<Rightarrow> bool" where
  "truthy v =
     (case v of
        Undefined \<Rightarrow> False
      | Number x \<Rightarrow> x \<noteq> 0
      | NaN \<Rightarrow> False
      | PosInfinity \<Rightarrow> True
      | NegInfinity \<Rightarrow> True)"

definition orElse :: "jsnum \<Rightarrow> jsnum \<Rightarrow> jsnum" where
  "orElse v d = (if truthy v then v else d)"

text \<open>\<^verbatim>\<open>locationData.locationMethod || 'gps'\<close>: the empty string is falsy too.\<close>

definition methodOrGps :: "string option \<Rightarrow> string" where
  "methodOrGps m = (case m of None \<Rightarrow> ''gps'' | Some s \<Rightarrow> (if s = [] then ''gps'' else s))"

text \<open>
  What the Location schema asks of a document when it is saved. A required Number path
  with a minimum and a maximum holds a number within them; a plain Number path holds
  anything but NaN, which cannot be cast; the battery level is optional, within 0 and 100;
  the location method is one of the enum.
\<close>

definition requiredWithin :: "real \<Rightarrow> real \<Rightarrow> jsnum \<Rightarrow> real option" where
  "requiredWithin lo hi v =
     (case v of Number x \<Rightarrow> (if lo \<le> x \<and> x \<le> hi then Some x else None) | _ \<Rightarrow> None)"

definition castable :: "jsnum \<Rightarrow> bool" where
  "castable v = (v \<noteq> NaN)"

definition batteryLevelValid :: "jsnum \<Rightarrow> bool" where
  "batteryLevelValid v =
     (case v of Undefined \<Rightarrow> True | Number x \<Rightarrow> 0 \<le> x \<and> x \<le> 100 | _ \<Rightarrow> False)"

definition locationMethods :: "string list" where
  "locationMethods = [''gps'', ''network'', ''passive'', ''fused'']"

text \<open>
  \<^verbatim>\<open>new Location({...})\<close> followed by the validation of \<^verbatim>\<open>save()\<close>: the document, or \<open>None\<close>
  when \<^verbatim>\<open>save()\<close> rejects it. The timestamp is a Date (\<open>None\<close> is the Invalid Date, which
  the Date path cannot cast). The routes run nothing between the two steps that could
  change the outcome of the validation, so the model validates where the document is made.
\<close>

definition newLocation ::
  "objectId \<Rightarrow> locationData \<Rightarrow> jsnum \<Rightarrow> int option \<Rightarrow> location option" where
  "newLocation userId locationData accuracy' timestamp =
     (case ld_coordinates locationData of
        None \<Rightarrow> None
      | Some c \<Rightarrow>
          (case requiredWithin (- 90) 90 (raw_latitude c) of
             None \<Rightarrow> None
           | Some lat \<Rightarrow>
               (case requiredWithin (- 180) 180 (raw_longitude c) of
                  None \<Rightarrow> None
                | Some lon \<Rightarrow>
                    (case timestamp of
                       None \<Rightarrow> None
                     | Some t \<Rightarrow>
                         (if castable accuracy' \<and> castable (ld_altitude locationData) \<and>
                             castable (ld_altitudeAccuracy locationData) \<and>
                             castable (ld_heading locationData) \<and>
                             castable (ld_speed locationData) \<and>
                             batteryLevelValid (ld_battery_level locationData) \<and>
                             methodOrGps (ld_locationMethod locationData)
                               \<in> set locationMethods
                          then Some
                            \<lparr>loc_userId = userId,
                             loc_coordinates = \<lparr>latitude = lat, longitude = lon\<rparr>,
                             accuracy = (if accuracy' = Undefined then Number 0 else accuracy'),
                             altitude = ld_altitude locationData,
                             altitudeAccuracy = ld_altitudeAccuracy locationData,
                             heading = ld_heading locationData,
                             speed = ld_speed locationData,
                             loc_timestamp = t,
                             battery_level = ld_battery_level locationData,
                             locationMethod = methodOrGps (ld_locationMethod locationData),
                             loc_place = None,
                             familyIds = [],
                             loc_isActive = True\<rparr>
                          else None)))))"

text \<open>The pre-save hook copies the family ids of the owner; then the document is stored.\<close>

definition preSave :: "db \<Rightarrow> location \<Rightarrow> location" where
  "preSave d this =
     (case findUserById d (loc_userId this) of
        None \<Rightarrow> this
      | Some u \<Rightarrow> this\<lparr>familyIds := map familyId (families u)\<rparr>)"

definition save :: "db \<Rightarrow> location \<Rightarrow> location \<times> db" where
  "save d this = (let saved = preSave d this in (saved, d\<lparr>locations := locations d @ [saved]\<rparr>))"

section \<open>POST /update (routes/location.js)\<close>

text \<open>The inner loop: the first place the sample is within is attached, and the loop breaks.\<close>

fun placeLoop :: "location \<Rightarrow> place list \<Rightarrow> location" where
  "placeLoop location [] = location"
| "placeLoop location (place # rest) =
     (if isWithinPlace location place
      then location\<lparr>loc_place :=
             Some \<lparr>placeId = place_id place, ref_name = place_name place,
                   ref_type = place_type place\<rparr>\<rparr>
      else placeLoop location rest)"

text \<open>The outer loop runs the inner loop for every family, one after the other.\<close>

fun familyLoop :: "location \<Rightarrow> family list \<Rightarrow> location" where
  "familyLoop location [] = location"
| "familyLoop location (family # rest) = familyLoop (placeLoop location (places family)) rest"

definition timestampOrNow :: "rawDate \<Rightarrow> int \<Rightarrow> int option" where
  "timestampOrNow v now =
     (case v of DateAbsent \<Rightarrow> Some now | DateString matches parsed \<Rightarrow> parsed)"

text \<open>
  The handler: the answer and the store after it. A user missing from the store makes
  \<^verbatim>\<open>user.locationSettings\<close> throw; every exception is answered with 500.
\<close>

definition postUpdate :: "int \<Rightarrow> db \<Rightarrow> objectId \<Rightarrow> locationData \<Rightarrow> (error + location) \<times> db" where
  "postUpdate now d userId locationData =
     (if \<not> updateValidators locationData then (Inl (BadRequest ''Validation failed''), d)
      else (case findUserById d userId of
        None \<Rightarrow> (Inl (ServerError ''Server error''), d)
      | Some user \<Rightarrow>
          (if \<not> shareLocation (locationSettings user)
           then (Inl (Forbidden ''Location sharing is disabled for this user''), d)
           else (case newLocation userId locationData
                        (orElse (ld_accuracy locationData) (Number 0))
                        (timestampOrNow (ld_timestamp locationData) now) of
             None \<Rightarrow> (Inl (ServerError ''Server error''), d)
           | Some location \<Rightarrow>
               (let families = filter (\<lambda>f. isUserMember f userId \<and> family_isActive f)
                                 (all_families d);
                    tagged = familyLoop location families;
                    (saved, d') = save d tagged
                in (Inr saved, d'))))))"

section \<open>The socket handler (socket/socketHandler.js)\<close>

record arrivalAlert =
  alert_userId :: objectId
  alert_placeName :: string
  alert_placeType :: placeType

text \<open>
  What a handler emits: to the sender's own socket, to the room of a family
  (\<^verbatim>\<open>family_<id>\<close>, without the sender), or to the room of a user (\<^verbatim>\<open>user_<id>\<close>).
\<close>

datatype event =
    EmitError string
  | LocationUpdateSuccess location
  | FamilyLocations objectId "(objectId \<times> location) list"
  | MemberLocationUpdate objectId location
  | PlaceAlert objectId arrivalAlert

text \<open>The \<^verbatim>\<open>forEach\<close> over the members to notify, appending to what was emitted so far.\<close>

fun notifyMembers :: "user \<Rightarrow> arrivalAlert \<Rightarrow> objectId list \<Rightarrow> event list \<Rightarrow> event list" where
  "notifyMembers user alert [] emitted = emitted"
| "notifyMembers user alert (memberId # rest) emitted =
     notifyMembers user alert rest
       (if memberId \<noteq> user_id user then emitted @ [PlaceAlert memberId alert] else emitted)"

text \<open>The body of the inner loop of \<^verbatim>\<open>checkPlaceAlerts\<close>, for one place of one family.\<close>

definition placeAlert :: "location \<Rightarrow> user \<Rightarrow> family \<Rightarrow> place \<Rightarrow> event list \<Rightarrow> event list" where
  "placeAlert locationRecord user family place emitted =
     (if isWithinPlace locationRecord place
      then (if arrivalAlerts (notifications place)
            then (let arrivalAlert = \<lparr>alert_userId = user_id user,
                                       alert_placeName = place_name place,
                                       alert_placeType = place_type place\<rparr>;
                      toNotify =
                        (if length (membersToNotify (notifications place)) > 0
                         then membersToNotify (notifications place)
                         else map member_userId (members family))
                  in notifyMembers user arrivalAlert toNotify emitted)
            else emitted)
      else emitted)"

fun placeAlertLoop :: "location \<Rightarrow> user \<Rightarrow> family \<Rightarrow> place list \<Rightarrow> event list \<Rightarrow> event list" where
  "placeAlertLoop locationRecord user family [] emitted = emitted"
| "placeAlertLoop locationRecord user family (place # rest) emitted =
     placeAlertLoop locationRecord user family rest
       (placeAlert locationRecord user family place emitted)"

fun familyAlertLoop :: "location \<Rightarrow> user \<Rightarrow> family list \<Rightarrow> event list \<Rightarrow> event list" where
  "familyAlertLoop locationRecord user [] emitted = emitted"
| "familyAlertLoop locationRecord user (family # rest) emitted =
     familyAlertLoop locationRecord user rest
       (placeAlertLoop locationRecord user family (places family) emitted)"

definition checkPlaceAlerts :: "db \<Rightarrow> location \<Rightarrow> user \<Rightarrow> event list" where
  "checkPlaceAlerts d locationRecord user =
     familyAlertLoop locationRecord user
       (filter (\<lambda>f. isUserMember f (user_id user)) (all_families d)) []"

text \<open>\<^verbatim>\<open>new Date(locationData.timestamp) || new Date()\<close>: a Date object is always truthy.\<close>

definition socketTimestamp :: "rawDate \<Rightarrow> int option" where
  "socketTimestamp v = (case v of DateAbsent \<Rightarrow> None | DateString matches parsed \<Rightarrow> parsed)"

text \<open>The \<^verbatim>\<open>location_update\<close> handler: what it emits, and the store after it.\<close>

definition socketLocationUpdate :: "db \<Rightarrow> objectId \<Rightarrow> locationData \<Rightarrow> event list \<times> db" where
  "socketLocationUpdate d userId locationData =
     (case ld_coordinates locationData of
        None \<Rightarrow> ([EmitError ''Invalid location data''], d)
      | Some c \<Rightarrow>
          (if \<not> truthy (raw_latitude c) then ([EmitError ''Invalid location data''], d)
           else if \<not> truthy (raw_longitude c) then ([EmitError ''Invalid location data''], d)
           else (case newLocation userId locationData (ld_accuracy locationData)
                        (socketTimestamp (ld_timestamp locationData)) of
             None \<Rightarrow> ([EmitError ''Failed to update location''], d)
           | Some locationRecord \<Rightarrow>
               (let (saved, d') = save d locationRecord
                in (case findUserById d' userId of
                      None \<Rightarrow> ([EmitError ''User not found''], d')
                    | Some user \<Rightarrow>
                        (map (\<lambda>family. MemberLocationUpdate (familyId family) saved)
                           (families user) @
                         checkPlaceAlerts d' saved user @
                         [LocationUpdateSuccess saved], d'))))))"


section \<open>The claims as the specification words them\<close>

text \<open>
  The reference of a place, as the tagging loop attaches it to a sample.
\<close>

definition placeRefOf :: "place \<Rightarrow> placeRef" where
  "placeRefOf p = \<lparr>placeId = place_id p, ref_name = place_name p, ref_type = place_type p\<rparr>"

text \<open>
  The validation faults the specification lists for a raw sample: the coordinates are
  missing, a component is missing, not finite or out of range, or one of the optional
  numeric fields is supplied and not finite.
\<close>

definition coordinateFault :: "locationData \<Rightarrow> bool" where
  "coordinateFault body =
     (case ld_coordinates body of
        None \<Rightarrow> True
      | Some c \<Rightarrow>
          (case raw_latitude c of Number x \<Rightarrow> x < - 90 \<or> 90 < x | _ \<Rightarrow> True) \<or>
          (case raw_longitude c of Number y \<Rightarrow> y < - 180 \<or> 180 < y | _ \<Rightarrow> True))"

definition nonFinite :: "jsnum \<Rightarrow> bool" where
  "nonFinite v = (case v of Undefined \<Rightarrow> False | Number x \<Rightarrow> False | _ \<Rightarrow> True)"

definition spec_validationFault :: "locationData \<Rightarrow> bool" where
  "spec_validationFault body \<longleftrightarrow>
     coordinateFault body \<or> nonFinite (ld_accuracy body) \<or> nonFinite (ld_altitude body) \<or>
     nonFinite (ld_altitudeAccuracy body) \<or> nonFinite (ld_heading body) \<or>
     nonFinite (ld_speed body)"

text \<open>The two further faults the validators of POST /update reject.\<close>

definition accuracyFault :: "locationData \<Rightarrow> bool" where
  "accuracyFault body =
     (case ld_accuracy body of Undefined \<Rightarrow> False | Number x \<Rightarrow> x < 0 | _ \<Rightarrow> True)"

definition timestampFault :: "locationData \<Rightarrow> bool" where
  "timestampFault body =
     (case ld_timestamp body of DateAbsent \<Rightarrow> False | DateString matches parsed \<Rightarrow> \<not> matches)"

section \<open>An example store\<close>

text \<open>
  Four users and three families. Ana (1) administers family 10, with Ben (2), and family
  20, with Dee (4); Cy (3) is alone in family 30 and shares nothing. Ben shares his
  location and his history, but is not visible to his family. Home, of family 10, and
  Office, of family 20, are both centred on latitude 0, longitude 0.
\<close>

definition exHome :: place where
  "exHome = \<lparr>place_id = 1, place_name = ''Home'',
     place_coordinates = \<lparr>latitude = 0, longitude = 0\<rparr>, radius = 100, place_type = Home,
     notifications = \<lparr>arrivalAlerts = True, departureAlerts = True, membersToNotify = []\<rparr>\<rparr>"

definition exOffice :: place where
  "exOffice = \<lparr>place_id = 2, place_name = ''Office'',
     place_coordinates = \<lparr>latitude = 0, longitude = 0\<rparr>, radius = 100, place_type = Work,
     notifications = \<lparr>arrivalAlerts = True, departureAlerts = True, membersToNotify = [4]\<rparr>\<rparr>"

definition exFamilyA :: family where
  "exFamilyA = \<lparr>family_id = 10,
     members = [\<lparr>member_userId = 1, member_role = Admin\<rparr>,
                \<lparr>member_userId = 2, member_role = Member\<rparr>],
     places = [exHome], family_isActive = True\<rparr>"

definition exFamilyB :: family where
  "exFamilyB = \<lparr>family_id = 20,
     members = [\<lparr>member_userId = 1, member_role = Admin\<rparr>,
                \<lparr>member_userId = 4, member_role = Member\<rparr>],
     places = [exOffice], family_isActive = True\<rparr>"

definition exFamilyC :: family where
  "exFamilyC = \<lparr>family_id = 30,
     members = [\<lparr>member_userId = 3, member_role = Admin\<rparr>],
     places = [], family_isActive = True\<rparr>"

definition exAna :: user where
  "exAna = \<lparr>user_id = 1,
     families = [\<lparr>familyId = 10, ref_role = Admin\<rparr>, \<lparr>familyId = 20, ref_role = Admin\<rparr>],
     locationSettings = \<lparr>shareLocation = True\<rparr>,
     privacySettings = \<lparr>shareLocationHistory = True, allowEmergencyAlerts = True,
                        visibleToFamily = True\<rparr>\<rparr>"

definition exBen :: user where
  "exBen = \<lparr>user_id = 2,
     families = [\<lparr>familyId = 10, ref_role = Member\<rparr>],
     locationSettings = \<lparr>shareLocation = True\<rparr>,
     privacySettings = \<lparr>shareLocationHistory = True, allowEmergencyAlerts = True,
                        visibleToFamily = False\<rparr>\<rparr>"

definition exCy :: user where
  "exCy = \<lparr>user_id = 3,
     families = [\<lparr>familyId = 30, ref_role = Admin\<rparr>],
     locationSettings = \<lparr>shareLocation = False\<rparr>,
     privacySettings = \<lparr>shareLocationHistory = False, allowEmergencyAlerts = True,
                        visibleToFamily = True\<rparr>\<rparr>"

definition exDee :: user where
  "exDee = \<lparr>user_id = 4,
     families = [\<lparr>familyId = 20, ref_role = Member\<rparr>],
     locationSettings = \<lparr>shareLocation = True\<rparr>,
     privacySettings = \<lparr>shareLocationHistory = True, allowEmergencyAlerts = True,
                        visibleToFamily = True\<rparr>\<rparr>"

text \<open>Ben's latest sample, and the store.\<close>

definition exBenSample :: location where
  "exBenSample = \<lparr>loc_userId = 2, loc_coordinates = \<lparr>latitude = 0, longitude = 0\<rparr>,
     accuracy = Number 5, altitude = Undefined, altitudeAccuracy = Undefined,
     heading = Undefined, speed = Undefined, loc_timestamp = 500, battery_level = Undefined,
     locationMethod = ''gps'', loc_place = None, familyIds = [10], loc_isActive = True\<rparr>"

definition exDb :: db where
  "exDb = \<lparr>users = [exAna, exBen, exCy, exDee],
     all_families = [exFamilyA, exFamilyB, exFamilyC], locations = [exBenSample]\<rparr>"

text \<open>What a client sends from latitude 0, longitude 0 at time 1000.\<close>

definition exBody :: locationData where
  "exBody = \<lparr>ld_coordinates = Some \<lparr>raw_latitude = Number 0, raw_longitude = Number 0\<rparr>,
     ld_accuracy = Undefined, ld_altitude = Undefined, ld_altitudeAccuracy = Undefined,
     ld_heading = Undefined, ld_speed = Undefined, ld_timestamp = DateString True (Some 1000),
     ld_battery_level = Undefined, ld_locationMethod = None\<rparr>"

text \<open>The same from latitude 10, longitude 20, and with a negative accuracy.\<close>

definition exBodyAway :: locationData where
  "exBodyAway =
     exBody\<lparr>ld_coordinates := Some \<lparr>raw_latitude = Number 10, raw_longitude = Number 20\<rparr>\<rparr>"

definition exBodyNegativeAccuracy :: locationData where
  "exBodyNegativeAccuracy = exBodyAway\<lparr>ld_accuracy := Number (- 1)\<rparr>"

definition exBodyLatitude91 :: locationData where
  "exBodyLatitude91 =
     exBody\<lparr>ld_coordinates := Some \<lparr>raw_latitude = Number 91, raw_longitude = Number 20\<rparr>\<rparr>"

definition exBodyLatitude0 :: locationData where
  "exBodyLatitude0 =
     exBody\<lparr>ld_coordinates := Some \<lparr>raw_latitude = Number 0, raw_longitude = Number 20\<rparr>\<rparr>"

text \<open>Ana's sample as POST /update stores it, and Cy's as the socket handler stores it.\<close>

definition exAnaSample :: location where
  "exAnaSample = \<lparr>loc_userId = 1, loc_coordinates = \<lparr>latitude = 0, longitude = 0\<rparr>,
     accuracy = Number 0, altitude = Undefined, altitudeAccuracy = Undefined,
     heading = Undefined, speed = Undefined, loc_timestamp = 1000, battery_level = Undefined,
     locationMethod = ''gps'', loc_place = Some (placeRefOf exOffice),
     familyIds = [10, 20], loc_isActive = True\<rparr>"

definition exCySample :: location where
  "exCySample = \<lparr>loc_userId = 3, loc_coordinates = \<lparr>latitude = 10, longitude = 20\<rparr>,
     accuracy = Number 0, altitude = Undefined, altitudeAccuracy = Undefined,
     heading = Undefined, speed = Undefined, loc_timestamp = 1000, battery_level = Undefined,
     locationMethod = ''gps'', loc_place = None, familyIds = [30], loc_isActive = True\<rparr>"

definition exHistoryQuery :: historyQuery where
  "exHistoryQuery = \<lparr>q_startDate = DateAbsent, q_endDate = DateAbsent, q_limit = LimitAbsent\<rparr>"





section \<open>Geo math: symmetry and the zeros of the distance\<close>




lemma haversine_a_self: "haversine_a p p = 0"
  by (simp add: haversine_a_def)

lemma distanceTo_self: "distanceTo p p = 0"
  by (simp add: distanceTo_def haversine_a_self atan2_def)

















section \<open>Geofence tagging of POST /update\<close>

lemma isWithinPlace_loc_place:
  "isWithinPlace (l\<lparr>loc_place := x\<rparr>) p = isWithinPlace l p"
  by (simp add: isWithinPlace_def)

lemma placeLoop_coordinates: "loc_coordinates (placeLoop l ps) = loc_coordinates l"
  by (induction ps) simp_all

lemma familyLoop_coordinates: "loc_coordinates (familyLoop l fs) = loc_coordinates l"
  by (induction fs arbitrary: l) (simp_all add: placeLoop_coordinates)

lemma isWithinPlace_familyLoop: "isWithinPlace (familyLoop l fs) p = isWithinPlace l p"
  by (simp add: isWithinPlace_def familyLoop_coordinates)

text \<open>The inner loop attaches the first place of the list that the sample is within.\<close>

lemma placeLoop_place:
  "loc_place (placeLoop l ps) =
     (case find (isWithinPlace l) ps of None \<Rightarrow> loc_place l | Some p \<Rightarrow> Some (placeRefOf p))"
  by (induction ps) (simp_all add: placeRefOf_def)

lemma familyLoop_snoc:
  "familyLoop l (fs @ [f]) = placeLoop (familyLoop l fs) (places f)"
  by (induction fs arbitrary: l) simp_all

lemma find_isWithinPlace_familyLoop:
  "find (isWithinPlace (familyLoop l fs)) ps = find (isWithinPlace l) ps"
  by (rule find_cong) (simp_all add: isWithinPlace_familyLoop)

text \<open>
  The break leaves the inner loop only, so a later family with a containing place
  overwrites the place of an earlier one: the last such family wins, with its first
  containing place.
\<close>

lemma familyLoop_last_family_wins:
  "loc_place (familyLoop l fs) =
     (case find (\<lambda>f. find (isWithinPlace l) (places f) \<noteq> None) (rev fs) of
        None \<Rightarrow> loc_place l
      | Some f \<Rightarrow> map_option placeRefOf (find (isWithinPlace l) (places f)))"
proof (induction fs rule: rev_induct)
  case Nil
  then show ?case by simp
next
  case (snoc f fs)
  show ?case
  proof (cases "find (isWithinPlace l) (places f)")
    case None
    with snoc show ?thesis
      by (simp add: familyLoop_snoc placeLoop_place find_isWithinPlace_familyLoop)
  next
    case (Some p)
    then show ?thesis
      by (simp add: familyLoop_snoc placeLoop_place find_isWithinPlace_familyLoop)
  qed
qed

text \<open>
  C1. Ana is in family 10 (place Home) and then in family 20 (place Office), and her sample
  is within both places. The claim attaches Home, the containing place of the first family;
  POST /update stores the sample with Office, the place of the second family.
\<close>

theorem postUpdate_tags_last_family:
  "isWithinPlace exAnaSample exHome \<and> isWithinPlace exAnaSample exOffice \<and>
   postUpdate 5000 exDb 1 exBody =
     (Inr exAnaSample, exDb\<lparr>locations := [exBenSample, exAnaSample]\<rparr>) \<and>
   loc_place exAnaSample = Some (placeRefOf exOffice) \<and>
   placeRefOf exOffice \<noteq> placeRefOf exHome"
  by (simp add: postUpdate_def updateValidators_def isFloat_def bodyLatitude_def
      bodyLongitude_def exBody_def optionalFloat_def optionalISO8601_def findUserById_def
      exDb_def exAna_def exBen_def exCy_def exDee_def newLocation_def requiredWithin_def
      orElse_def truthy_def timestampOrNow_def castable_def batteryLevelValid_def
      locationMethods_def methodOrGps_def isUserMember_def exFamilyA_def exFamilyB_def
      exFamilyC_def isWithinPlace_def exHome_def exOffice_def distanceTo_self save_def
      preSave_def Let_def exAnaSample_def placeRefOf_def)

section \<open>The admin floor of a family\<close>

lemma hasAdmin_iff:
  "hasAdmin f \<longleftrightarrow> members f = [] \<or> (\<exists>m \<in> set (members f). member_role m = Admin)"
  by (auto simp: hasAdmin_def list_ex_iff)

lemma find_Some_set: "find P xs = Some x \<Longrightarrow> x \<in> set xs \<and> P x"
  by (induction xs) (auto split: if_splits)

lemma distinct_same_id:
  assumes "distinct (map member_userId ms)" "a \<in> set ms" "b \<in> set ms"
    "member_userId a = member_userId b"
  shows "a = b"
  using assms by (auto simp: distinct_map inj_on_def)

lemma other_admin:
  assumes "distinct ms" "a \<in> set ms" "P a" "length (filter P ms) \<noteq> 1"
  shows "\<exists>b \<in> set ms. P b \<and> b \<noteq> a"
proof (rule ccontr)
  assume neg: "\<not> (\<exists>b \<in> set ms. P b \<and> b \<noteq> a)"
  have "set (filter P ms) = {a}"
  proof (rule equalityI)
    show "set (filter P ms) \<subseteq> {a}" using neg by auto
    show "{a} \<subseteq> set (filter P ms)" using assms(2,3) by simp
  qed
  then have "card (set (filter P ms)) = 1" by simp
  moreover have "distinct (filter P ms)" using assms(1) by simp
  then have "card (set (filter P ms)) = length (filter P ms)" by (rule distinct_card)
  ultimately show False
    using assms(4) by simp
qed

lemma removeMember_keeps:
  "b \<in> set (members f) \<Longrightarrow> member_userId b \<noteq> u \<Longrightarrow> b \<in> set (members (removeMember f u))"
  by (simp add: removeMember_def)

text \<open>
  DELETE /:familyId/members/:memberId guards the floor: a family it has changed has an
  admin among its members.
\<close>

lemma deleteMember_hasAdmin:
  assumes d: "distinct (map member_userId (members f))"
    and ok: "deleteMember f requesterId memberId = Inr f'"
  shows "hasAdmin f'"
proof -
  from ok obtain ra mt where
    ra: "find (\<lambda>m. member_userId m = requesterId) (members f) = Some ra" "member_role ra = Admin"
    and mt: "find (\<lambda>m. member_userId m = memberId) (members f) = Some mt"
    and guard: "\<not> (member_role mt = Admin \<and> adminCount f = 1)"
    and f': "f' = removeMember f memberId"
    by (auto simp: deleteMember_def isUserAdmin_def split: option.splits if_splits)
  have ra_in: "ra \<in> set (members f)" "member_userId ra = requesterId"
    using find_Some_set [OF ra(1)] by simp_all
  have mt_in: "mt \<in> set (members f)" "member_userId mt = memberId"
    using find_Some_set [OF mt] by simp_all
  have dm: "distinct (members f)" using d by (simp add: distinct_map)
  have "\<exists>b \<in> set (members f). member_role b = Admin \<and> member_userId b \<noteq> memberId"
  proof (cases "member_role mt = Admin")
    case True
    with guard have "length (filter (\<lambda>m. member_role m = Admin) (members f)) \<noteq> 1"
      by (simp add: adminCount_def)
    with dm mt_in(1) True obtain b where
      b: "b \<in> set (members f)" "member_role b = Admin" "b \<noteq> mt"
      using other_admin [of "members f" mt "\<lambda>m. member_role m = Admin"] by auto
    then have "member_userId b \<noteq> memberId"
      using distinct_same_id [OF d b(1) mt_in(1)] mt_in(2) by auto
    with b show ?thesis by auto
  next
    case False
    have "requesterId \<noteq> memberId"
    proof
      assume "requesterId = memberId"
      with ra(1) mt have "ra = mt" by simp
      with ra(2) False show False by simp
    qed
    with ra_in ra(2) show ?thesis by auto
  qed
  then obtain b where "b \<in> set (members f')" "member_role b = Admin"
    unfolding f' using removeMember_keeps by blast
  then show ?thesis by (auto simp: hasAdmin_iff)
qed

text \<open>POST /:familyId/leave guards it too.\<close>

lemma leaveFamily_hasAdmin:
  assumes d: "distinct (map member_userId (members f))"
    and inv: "hasAdmin f"
    and ok: "leaveFamily f u = Inr f'"
  shows "hasAdmin f'"
proof -
  from ok obtain um where
    um: "find (\<lambda>m. member_userId m = u) (members f) = Some um"
    and guard: "\<not> (member_role um = Admin \<and> adminCount f = 1 \<and> length (members f) > 1)"
    and f': "members f' = members (removeMember f u)"
    by (auto simp: leaveFamily_def Let_def split: option.splits if_splits)
  have um_in: "um \<in> set (members f)" "member_userId um = u"
    using find_Some_set [OF um] by simp_all
  have dm: "distinct (members f)" using d by (simp add: distinct_map)
  show ?thesis
  proof (cases "members f' = []")
    case True
    then show ?thesis by (simp add: hasAdmin_def)
  next
    case False
    then obtain c where c: "c \<in> set (members f)" "member_userId c \<noteq> u"
      unfolding f' by (auto simp: removeMember_def filter_empty_conv)
    then have "c \<noteq> um" using um_in by auto
    then have "card {c, um} = 2" by simp
    moreover have "card {c, um} \<le> card (set (members f))"
      using c(1) um_in(1) by (intro card_mono) auto
    moreover have "card (set (members f)) \<le> length (members f)"
      by (rule card_length)
    ultimately have "length (members f) > 1" by linarith
    with guard have g: "\<not> (member_role um = Admin \<and> adminCount f = 1)" by simp
    have "\<exists>b \<in> set (members f). member_role b = Admin \<and> member_userId b \<noteq> u"
    proof (cases "member_role um = Admin")
      case True
      with g have "length (filter (\<lambda>m. member_role m = Admin) (members f)) \<noteq> 1"
        by (simp add: adminCount_def)
      with dm um_in(1) True obtain b where
        b: "b \<in> set (members f)" "member_role b = Admin" "b \<noteq> um"
        using other_admin [of "members f" um "\<lambda>m. member_role m = Admin"] by auto
      then have "member_userId b \<noteq> u"
        using distinct_same_id [OF d b(1) um_in(1)] um_in(2) by auto
      with b show ?thesis by auto
    next
      case F: False
      from inv um_in(1) obtain b where b: "b \<in> set (members f)" "member_role b = Admin"
        by (auto simp: hasAdmin_iff)
      with F have "b \<noteq> um" by auto
      then have "member_userId b \<noteq> u"
        using distinct_same_id [OF d b(1) um_in(1)] um_in(2) by auto
      with b show ?thesis by auto
    qed
    then obtain b where "b \<in> set (members f')" "member_role b = Admin"
      unfolding f' using removeMember_keeps by blast
    then show ?thesis by (auto simp: hasAdmin_iff)
  qed
qed

text \<open>Both refuse to take the only admin away from the other members.\<close>

lemma last_admin_rejected:
  assumes "find (\<lambda>m. member_userId m = u) (members f) = Some m" "member_role m = Admin"
    "adminCount f = 1" "length (members f) > 1"
  shows "deleteMember f u u = Inl (BadRequest ''Cannot remove the only admin from the family'')"
    and "\<exists>msg. leaveFamily f u = Inl (BadRequest msg)"
proof -
  have "isUserMember f u"
    using find_Some_set [OF assms(1)] by (auto simp: isUserMember_def list_ex_iff)
  with assms show
    "deleteMember f u u = Inl (BadRequest ''Cannot remove the only admin from the family'')"
    "\<exists>msg. leaveFamily f u = Inl (BadRequest msg)"
    by (simp_all add: deleteMember_def leaveFamily_def isUserAdmin_def)
qed

text \<open>
  C7. Family 10 has the admin Ana and the member Ben. Ana, the only admin, sets her own
  role to member through PUT /:familyId/members/:memberId/role: the request succeeds, and
  the family is left with two members and no admin.
\<close>

theorem putMemberRole_demotes_last_admin:
  "hasAdmin exFamilyA \<and> adminCount exFamilyA = 1 \<and>
   putMemberRole exFamilyA 1 1 Member =
     Inr (exFamilyA\<lparr>members := [\<lparr>member_userId = 1, member_role = Member\<rparr>,
                                 \<lparr>member_userId = 2, member_role = Member\<rparr>]\<rparr>) \<and>
   \<not> hasAdmin (exFamilyA\<lparr>members := [\<lparr>member_userId = 1, member_role = Member\<rparr>,
                                       \<lparr>member_userId = 2, member_role = Member\<rparr>]\<rparr>)"
  by (simp add: hasAdmin_def adminCount_def putMemberRole_def isUserAdmin_def isUserMember_def
      updateMemberRole_def exFamilyA_def)

section \<open>The permission evaluator\<close>

lemma sharedFamily_iff:
  "sharedFamily requester target \<longleftrightarrow>
     familyId ` set (families requester) \<inter> familyId ` set (families target) \<noteq> {}"
  unfolding sharedFamily_def list_ex_iff by (auto; metis)

text \<open>
  C5. A requester other than the target, whose families have no id in common with the
  families of the target, is refused every data type, whatever the location and privacy
  settings of the target are.
\<close>

theorem no_shared_family_no_access:
  assumes "user_id requester \<noteq> user_id target"
    and "familyId ` set (families requester) \<inter> familyId ` set (families target) = {}"
  shows "\<not> hasDataAccessPermission requester
             (target\<lparr>locationSettings := ls, privacySettings := ps\<rparr>) dataType"
  using assms by (simp add: hasDataAccessPermission_def sharedFamily_iff)

theorem no_shared_family_no_access_witness:
  "user_id exAna \<noteq> user_id exCy \<and>
   familyId ` set (families exAna) \<inter> familyId ` set (families exCy) = {} \<and>
   \<not> hasDataAccessPermission exAna
       (exCy\<lparr>locationSettings := \<lparr>shareLocation = True\<rparr>,
             privacySettings := \<lparr>shareLocationHistory = True, allowEmergencyAlerts = True,
                                 visibleToFamily = True\<rparr>\<rparr>) ''location'' \<and>
   \<not> hasDataAccessPermission exAna
       (exCy\<lparr>locationSettings := \<lparr>shareLocation = True\<rparr>,
             privacySettings := \<lparr>shareLocationHistory = True, allowEmergencyAlerts = True,
                                 visibleToFamily = True\<rparr>\<rparr>) ''locationHistory'' \<and>
   \<not> hasDataAccessPermission exAna
       (exCy\<lparr>locationSettings := \<lparr>shareLocation = True\<rparr>,
             privacySettings := \<lparr>shareLocationHistory = True, allowEmergencyAlerts = True,
                                 visibleToFamily = True\<rparr>\<rparr>) ''profile''"
proof -
  have 1: "user_id exAna \<noteq> user_id exCy"
    by (simp add: exAna_def exCy_def)
  have 2: "familyId ` set (families exAna) \<inter> familyId ` set (families exCy) = {}"
    by (simp add: exAna_def exCy_def)
  show ?thesis
    using 1 2 no_shared_family_no_access [OF 1 2] by simp
qed

section \<open>The history of another user\<close>

text \<open>
  C10. For a request whose query passes the validators, a target that exists and has
  switched history sharing off is answered with the denial of the privacy check, whoever
  asks. A requester in none of the target's families is answered with the other denial when
  the target shares the history, so the two messages tell the requester the target's
  setting.
\<close>

theorem history_privacy_checked_before_family:
  assumes "historyValidators q" and "findUserById d targetUserId = Some targetUser"
  shows "(\<not> shareLocationHistory (privacySettings targetUser) \<longrightarrow>
            getUserHistory now d requesterId targetUserId q =
              Inl (Forbidden ''User has disabled location history sharing'')) \<and>
         (shareLocationHistory (privacySettings targetUser) \<and>
          findUserById d requesterId = Some requesterUser \<and>
          \<not> sharedFamily requesterUser targetUser \<longrightarrow>
            getUserHistory now d requesterId targetUserId q =
              Inl (Forbidden ''Not authorized to view this user's location history''))"
  using assms by (simp add: getUserHistory_def)

theorem history_privacy_checked_before_family_witness:
  "historyValidators exHistoryQuery \<and> findUserById exDb 3 = Some exCy \<and>
   findUserById exDb 1 = Some exAna \<and> \<not> sharedFamily exAna exCy \<and>
   \<not> sharedFamily exCy exAna \<and>
   \<not> shareLocationHistory (privacySettings exCy) \<and>
   shareLocationHistory (privacySettings exAna) \<and>
   getUserHistory 1000 exDb 1 3 exHistoryQuery =
     Inl (Forbidden ''User has disabled location history sharing'') \<and>
   getUserHistory 1000 exDb 3 1 exHistoryQuery =
     Inl (Forbidden ''Not authorized to view this user's location history'')"
proof -
  have v: "historyValidators exHistoryQuery"
    by (simp add: historyValidators_def exHistoryQuery_def optionalISO8601_def optionalLimit_def)
  have cy: "findUserById exDb 3 = Some exCy" and ana: "findUserById exDb 1 = Some exAna"
    by (simp_all add: findUserById_def exDb_def exAna_def exBen_def exCy_def)
  have s: "\<not> sharedFamily exAna exCy" "\<not> sharedFamily exCy exAna"
    by (simp_all add: sharedFamily_def exAna_def exCy_def)
  have p: "\<not> shareLocationHistory (privacySettings exCy)"
    "shareLocationHistory (privacySettings exAna)"
    by (simp_all add: exAna_def exCy_def)
  show ?thesis
    using v cy ana s p
      history_privacy_checked_before_family [OF v cy, of 1000 1 exAna]
      history_privacy_checked_before_family [OF v ana, of 1000 3 exCy]
    by simp
qed

section \<open>Ingestion and the sharing switch\<close>

text \<open>
  POST /update with sharing switched off stores nothing: the request is refused, for
  validation if a validator fails and for permission otherwise.
\<close>

lemma postUpdate_sharing_disabled:
  assumes "findUserById d userId = Some u" "\<not> shareLocation (locationSettings u)"
  shows "postUpdate now d userId body =
     (if updateValidators body
      then Inl (Forbidden ''Location sharing is disabled for this user'')
      else Inl (BadRequest ''Validation failed''), d)"
  using assms by (simp add: postUpdate_def)

text \<open>
  C2. Cy has switched location sharing off. POST /update refuses Cy's sample for permission;
  the \<^verbatim>\<open>location_update\<close> event of the socket, with the same sample, stores it, sends it to
  the room of Cy's family and confirms it.
\<close>

theorem socketLocationUpdate_ignores_sharing_switch:
  "findUserById exDb 3 = Some exCy \<and> \<not> shareLocation (locationSettings exCy) \<and>
   postUpdate 5000 exDb 3 exBodyAway =
     (Inl (Forbidden ''Location sharing is disabled for this user''), exDb) \<and>
   socketLocationUpdate exDb 3 exBodyAway =
     ([MemberLocationUpdate 30 exCySample, LocationUpdateSuccess exCySample],
      exDb\<lparr>locations := [exBenSample, exCySample]\<rparr>)"
  by (simp add: postUpdate_def socketLocationUpdate_def updateValidators_def isFloat_def
      bodyLatitude_def bodyLongitude_def exBody_def exBodyAway_def optionalFloat_def
      optionalISO8601_def findUserById_def exDb_def exAna_def exBen_def exCy_def exDee_def
      newLocation_def requiredWithin_def truthy_def socketTimestamp_def castable_def
      batteryLevelValid_def locationMethods_def methodOrGps_def isUserMember_def exFamilyA_def
      exFamilyB_def exFamilyC_def save_def preSave_def Let_def exCySample_def
      checkPlaceAlerts_def)

section \<open>Current locations of the family members\<close>


section \<open>The history of another user: what the route checks\<close>

text \<open>A history is only handed out for a shared family and an enabled history sharing.\<close>

lemma getUserHistory_success:
  assumes "getUserHistory now d requesterId targetUserId q = Inr resp"
  shows "\<exists>r t. findUserById d requesterId = Some r \<and> findUserById d targetUserId = Some t \<and>
           sharedFamily r t \<and> shareLocationHistory (privacySettings t)"
  using assms by (auto simp: getUserHistory_def split: if_splits option.splits)

text \<open>
  C4. Ben shares his history and is not visible to his family, so the permission evaluator
  refuses Ana his history; GET /user/2/history, asked by Ana, succeeds and returns it.
\<close>

theorem history_ignores_visibleToFamily:
  "sharedFamily exAna exBen \<and> shareLocationHistory (privacySettings exBen) \<and>
   \<not> visibleToFamily (privacySettings exBen) \<and>
   \<not> hasDataAccessPermission exAna exBen ''locationHistory'' \<and>
   getUserHistory 1000 exDb 1 2 exHistoryQuery =
     Inr \<lparr>hr_userId = 2, hr_locations = [exBenSample], hr_count = 1,
          hr_start = 1000 - 604800000, hr_end = 1000\<rparr>"
  by (simp add: sharedFamily_def hasDataAccessPermission_def getUserHistory_def
      historyValidators_def exHistoryQuery_def optionalISO8601_def optionalLimit_def
      findUserById_def dateOrDefault_def limitOrDefault_def getHistoryForUser_def exDb_def
      exAna_def exBen_def exCy_def exDee_def exBenSample_def)

section \<open>Validation of POST /update\<close>

lemma isFloat_fault:
  "isFloat (Some lo) (Some hi) v \<longleftrightarrow> \<not> (case v of Number x \<Rightarrow> x < lo \<or> hi < x | _ \<Rightarrow> True)"
  by (cases v) (auto simp: isFloat_def)

text \<open>The validators pass exactly the samples without one of the three faults.\<close>

lemma updateValidators_iff:
  "updateValidators body \<longleftrightarrow>
     \<not> (coordinateFault body \<or> accuracyFault body \<or> timestampFault body)"
proof -
  have c: "isFloat (Some (- 90)) (Some 90) (bodyLatitude body) \<and>
           isFloat (Some (- 180)) (Some 180) (bodyLongitude body) \<longleftrightarrow> \<not> coordinateFault body"
  proof (cases "ld_coordinates body")
    case None
    then show ?thesis
      by (simp add: coordinateFault_def bodyLatitude_def bodyLongitude_def isFloat_def)
  next
    case (Some c)
    then show ?thesis
      by (simp add: isFloat_fault coordinateFault_def bodyLatitude_def bodyLongitude_def)
  qed
  have a: "optionalFloat (Some 0) None (ld_accuracy body) \<longleftrightarrow> \<not> accuracyFault body"
    by (cases "ld_accuracy body") (auto simp: optionalFloat_def isFloat_def accuracyFault_def)
  have t: "optionalISO8601 (ld_timestamp body) \<longleftrightarrow> \<not> timestampFault body"
    by (cases "ld_timestamp body") (simp_all add: optionalISO8601_def timestampFault_def)
  show ?thesis
    unfolding updateValidators_def using c a t by blast
qed

text \<open>Only the validators answer with the validation error, and they store nothing.\<close>

lemma postUpdate_BadRequest_iff:
  "fst (postUpdate now d userId body) = Inl (BadRequest ''Validation failed'') \<longleftrightarrow>
     \<not> updateValidators body"
  by (simp add: postUpdate_def Let_def split: option.splits prod.splits)

lemma postUpdate_invalid:
  "\<not> updateValidators body \<Longrightarrow>
     postUpdate now d userId body = (Inl (BadRequest ''Validation failed''), d)"
  by (simp add: postUpdate_def)

text \<open>
  C6 (as amended). POST /update refuses a raw sample for validation, and stores nothing,
  exactly when the coordinates are missing, a component of them is missing, not finite or
  out of range, a supplied accuracy is not finite or negative, or a supplied timestamp is
  not ISO 8601. A latitude of 91 is refused and nothing is stored.
\<close>

theorem postUpdate_validation_error_iff:
  "(fst (postUpdate now d userId body) = Inl (BadRequest ''Validation failed'') \<longleftrightarrow>
      coordinateFault body \<or> accuracyFault body \<or> timestampFault body) \<and>
   (coordinateFault body \<or> accuracyFault body \<or> timestampFault body \<longrightarrow>
      snd (postUpdate now d userId body) = d) \<and>
   (bodyLatitude body = Number 91 \<longrightarrow>
      postUpdate now d userId body = (Inl (BadRequest ''Validation failed''), d))"
proof (intro conjI impI)
  show "fst (postUpdate now d userId body) = Inl (BadRequest ''Validation failed'') \<longleftrightarrow>
      coordinateFault body \<or> accuracyFault body \<or> timestampFault body"
    unfolding postUpdate_BadRequest_iff updateValidators_iff by simp
next
  assume "coordinateFault body \<or> accuracyFault body \<or> timestampFault body"
  then have "\<not> updateValidators body" by (simp add: updateValidators_iff)
  then show "snd (postUpdate now d userId body) = d" by (simp add: postUpdate_invalid)
next
  assume "bodyLatitude body = Number 91"
  then have "\<not> updateValidators body" by (simp add: updateValidators_def isFloat_def)
  then show "postUpdate now d userId body = (Inl (BadRequest ''Validation failed''), d)"
    by (rule postUpdate_invalid)
qed

text \<open>
  A latitude of 91 is refused and the store is what it was; a latitude of 0 with a
  longitude of 20 is not refused for validation.
\<close>

theorem postUpdate_validation_error_iff_witness:
  "bodyLatitude exBodyLatitude91 = Number 91 \<and>
   postUpdate 5000 exDb 1 exBodyLatitude91 = (Inl (BadRequest ''Validation failed''), exDb) \<and>
   \<not> coordinateFault exBodyLatitude0 \<and> \<not> accuracyFault exBodyLatitude0 \<and>
   \<not> timestampFault exBodyLatitude0 \<and>
   fst (postUpdate 5000 exDb 1 exBodyLatitude0) \<noteq> Inl (BadRequest ''Validation failed'')"
proof -
  have 1: "bodyLatitude exBodyLatitude91 = Number 91"
    by (simp add: bodyLatitude_def exBodyLatitude91_def exBody_def)
  have 2: "\<not> coordinateFault exBodyLatitude0" "\<not> accuracyFault exBodyLatitude0"
    "\<not> timestampFault exBodyLatitude0"
    by (simp_all add: coordinateFault_def accuracyFault_def timestampFault_def
        exBodyLatitude0_def exBody_def)
  show ?thesis
    using 1 2 postUpdate_validation_error_iff [of 5000 exDb 1 exBodyLatitude91]
      postUpdate_validation_error_iff [of 5000 exDb 1 exBodyLatitude0]
    by simp
qed

text \<open>
  The claim as the specification words it fails on a negative accuracy: the coordinates
  are there and in range and every numeric field is finite, and the sample is refused for
  validation.
\<close>

theorem postUpdate_validation_counterexample:
  "\<not> spec_validationFault exBodyNegativeAccuracy \<and>
   postUpdate 5000 exDb 1 exBodyNegativeAccuracy =
     (Inl (BadRequest ''Validation failed''), exDb)"
  by (simp add: spec_validationFault_def coordinateFault_def nonFinite_def postUpdate_def
      updateValidators_def isFloat_def optionalFloat_def bodyLatitude_def bodyLongitude_def
      exBodyNegativeAccuracy_def exBodyAway_def exBody_def)

text \<open>
  The \<^verbatim>\<open>location_update\<close> handler of the socket tests the two coordinates for truthiness:
  it refuses the latitude 0 that POST /update accepts. A latitude of 91 passes that test and
  is refused by the schema when the document is saved.
\<close>

lemma socketLocationUpdate_latitude_zero:
  "socketLocationUpdate exDb 1 exBodyLatitude0 = ([EmitError ''Invalid location data''], exDb) \<and>
   socketLocationUpdate exDb 1 exBodyLatitude91 =
     ([EmitError ''Failed to update location''], exDb)"
  by (simp add: socketLocationUpdate_def truthy_def newLocation_def requiredWithin_def
      exBodyLatitude0_def exBodyLatitude91_def exBody_def)

section \<open>Arrival alerts\<close>

lemma notifyMembers_eq:
  "notifyMembers u a ms emitted =
     emitted @ map (\<lambda>m. PlaceAlert m a) (filter (\<lambda>m. m \<noteq> user_id u) ms)"
  by (induction ms arbitrary: emitted) simp_all

lemma placeAlert_append:
  "placeAlert l u f p emitted = emitted @ placeAlert l u f p []"
  by (simp add: placeAlert_def notifyMembers_eq Let_def)

lemma placeAlertLoop_eq:
  "placeAlertLoop l u f ps emitted = emitted @ concat (map (\<lambda>p. placeAlert l u f p []) ps)"
proof (induction ps arbitrary: emitted)
  case Nil
  then show ?case by simp
next
  case (Cons p ps)
  show ?case
    by (simp add: Cons.IH placeAlert_append [of l u f p emitted])
qed

lemma familyAlertLoop_eq:
  "familyAlertLoop l u fs emitted =
     emitted @ concat (map (\<lambda>f. concat (map (\<lambda>p. placeAlert l u f p []) (places f))) fs)"
proof (induction fs arbitrary: emitted)
  case Nil
  then show ?case by simp
next
  case (Cons f fs)
  show ?case
    by (simp add: Cons.IH placeAlertLoop_eq [of l u f "places f" emitted])
qed

text \<open>
  C8. The arrival alert of a place the sample is within, with arrival alerts on, goes to
  the members to notify of the place when there are any, and to all the members of the
  family otherwise, in both cases without the owner of the sample; and what
  \<^verbatim>\<open>checkPlaceAlerts\<close> emits is these alerts, for every place of every family of the owner.
\<close>

theorem arrival_alert_recipients:
  "(isWithinPlace l p \<and> arrivalAlerts (notifications p) \<longrightarrow>
      set (placeAlert l u f p []) =
        (\<lambda>m. PlaceAlert m \<lparr>alert_userId = user_id u, alert_placeName = place_name p,
                            alert_placeType = place_type p\<rparr>) `
          ((if membersToNotify (notifications p) \<noteq> []
            then set (membersToNotify (notifications p))
            else member_userId ` set (members f)) - {user_id u})) \<and>
   set (checkPlaceAlerts d l u) =
     (\<Union>f \<in> {f \<in> set (all_families d). isUserMember f (user_id u)}.
        \<Union>p \<in> set (places f). set (placeAlert l u f p []))"
proof (intro conjI impI)
  assume "isWithinPlace l p \<and> arrivalAlerts (notifications p)"
  then show "set (placeAlert l u f p []) =
        (\<lambda>m. PlaceAlert m \<lparr>alert_userId = user_id u, alert_placeName = place_name p,
                            alert_placeType = place_type p\<rparr>) `
          ((if membersToNotify (notifications p) \<noteq> []
            then set (membersToNotify (notifications p))
            else member_userId ` set (members f)) - {user_id u})"
    by (auto simp: placeAlert_def notifyMembers_eq Let_def)
next
  show "set (checkPlaceAlerts d l u) =
     (\<Union>f \<in> {f \<in> set (all_families d). isUserMember f (user_id u)}.
        \<Union>p \<in> set (places f). set (placeAlert l u f p []))"
    by (auto simp: checkPlaceAlerts_def familyAlertLoop_eq)
qed

text \<open>
  Ana's sample is within Home, whose list of members to notify is empty, and within
  Office, whose list names Dee: the alert of Home goes to Ben, the other member of family
  10, and the alert of Office to Dee; none goes to Ana.
\<close>

theorem arrival_alert_recipients_witness:
  "isWithinPlace exAnaSample exHome \<and> arrivalAlerts (notifications exHome) \<and>
   isWithinPlace exAnaSample exOffice \<and> arrivalAlerts (notifications exOffice) \<and>
   set (placeAlert exAnaSample exAna exFamilyA exHome []) =
     {PlaceAlert 2 \<lparr>alert_userId = 1, alert_placeName = ''Home'', alert_placeType = Home\<rparr>} \<and>
   set (placeAlert exAnaSample exAna exFamilyB exOffice []) =
     {PlaceAlert 4 \<lparr>alert_userId = 1, alert_placeName = ''Office'', alert_placeType = Work\<rparr>} \<and>
   set (checkPlaceAlerts exDb exAnaSample exAna) =
     set (placeAlert exAnaSample exAna exFamilyA exHome []) \<union>
     set (placeAlert exAnaSample exAna exFamilyB exOffice [])"
proof -
  have h: "isWithinPlace exAnaSample exHome" "arrivalAlerts (notifications exHome)"
    and o: "isWithinPlace exAnaSample exOffice" "arrivalAlerts (notifications exOffice)"
    by (simp_all add: isWithinPlace_def exAnaSample_def exHome_def exOffice_def
        distanceTo_self)
  have fs: "{f \<in> set (all_families exDb). isUserMember f (user_id exAna)} =
              {exFamilyA, exFamilyB}"
    by (auto simp: exDb_def isUserMember_def exAna_def exFamilyA_def exFamilyB_def
        exFamilyC_def)
  have ps: "places exFamilyA = [exHome]" "places exFamilyB = [exOffice]"
    by (simp_all add: exFamilyA_def exFamilyB_def)
  have ids: "user_id exAna = 1" "member_userId ` set (members exFamilyA) = {1, 2}"
    "membersToNotify (notifications exHome) = []"
    "membersToNotify (notifications exOffice) = [4]"
    "place_name exHome = ''Home''" "place_type exHome = Home"
    "place_name exOffice = ''Office''" "place_type exOffice = Work"
    by (simp_all add: exAna_def exFamilyA_def exHome_def exOffice_def)
  have d: "{1, 2} - {1::nat} = {2}" "{4} - {1::nat} = {4}" by auto
  note home = arrival_alert_recipients [of exAnaSample exHome exAna exFamilyA exDb]
  note office = arrival_alert_recipients [of exAnaSample exOffice exAna exFamilyB exDb]
  from home h have 1: "set (placeAlert exAnaSample exAna exFamilyA exHome []) =
     {PlaceAlert 2 \<lparr>alert_userId = 1, alert_placeName = ''Home'', alert_placeType = Home\<rparr>}"
    by (simp add: ids d)
  from office o have 2: "set (placeAlert exAnaSample exAna exFamilyB exOffice []) =
     {PlaceAlert 4 \<lparr>alert_userId = 1, alert_placeName = ''Office'', alert_placeType = Work\<rparr>}"
    by (simp add: ids d)
  from home have "set (checkPlaceAlerts exDb exAnaSample exAna) =
     (\<Union>f \<in> {f \<in> set (all_families exDb). isUserMember f (user_id exAna)}.
        \<Union>p \<in> set (places f). set (placeAlert exAnaSample exAna f p []))"
    by (rule conjunct2)
  then have 3: "set (checkPlaceAlerts exDb exAnaSample exAna) =
     set (placeAlert exAnaSample exAna exFamilyA exHome []) \<union>
     set (placeAlert exAnaSample exAna exFamilyB exOffice [])"
    unfolding fs by (simp add: ps)
  from h o 1 2 3 show ?thesis by (intro conjI)
qed

end
